theory Spec2Isabelle
  imports Main
begin

section \<open>Objects, errors and the object store\<close>

text \<open>
  The controller of \<^verbatim>\<open>managedcluster_controller.go\<close> talks to the Kubernetes API through
  \<^verbatim>\<open>r.client\<close>. Objects are modelled by the fields the controller reads or writes: the
  metadata (name, namespace, labels, finalizers, deletion timestamp) and the status
  conditions. A condition status is a string, as \<^verbatim>\<open>metav1.ConditionStatus\<close> is; the API
  has three constants for it.
\<close>

type_synonym ConditionStatus = string

definition ConditionTrue :: ConditionStatus where
  "ConditionTrue = ''True''"

definition ConditionFalse :: ConditionStatus where
  "ConditionFalse = ''False''"

definition ConditionUnknown :: ConditionStatus where
  "ConditionUnknown = ''Unknown''"

record Condition =
  Type :: string
  Status :: ConditionStatus
  Reason :: string
  Message :: string

record Object =
  Name :: string
  Namespace :: string
  Labels :: "string \<rightharpoonup> string"
  Finalizers :: "string list"
  DeletionTimestamp :: "nat option"
  Conditions :: "Condition list"

text \<open>
  Go errors are values. \<open>StatusError reason message\<close> is an API status error,
  \<open>NumError func input\<close> the syntax error of package strconv, \<open>ErrorString\<close> what
  \<^verbatim>\<open>fmt.Errorf\<close> builds.
\<close>

datatype error =
    StatusError string string
  | NumError string string
  | ErrorString string

fun IsNotFound :: "error \<Rightarrow> bool" where
  "IsNotFound (StatusError reason msg) = (reason = ''NotFound'')"
| "IsNotFound (NumError f v) = False"
| "IsNotFound (ErrorString msg) = False"

text \<open>
  The text of \<^verbatim>\<open>err.Error()\<close>. A syntax error of strconv shows its input through
  \<^verbatim>\<open>strconv.Quote\<close>, a function of the Go library that is taken as the parameter
  \<open>quote\<close>.
\<close>

fun Error :: "(string \<Rightarrow> string) \<Rightarrow> error \<Rightarrow> string" where
  "Error quote (StatusError reason msg) = msg"
| "Error quote (NumError f v) = ''strconv.'' @ f @ '': parsing '' @ quote v @ '': invalid syntax''"
| "Error quote (ErrorString msg) = msg"

text \<open>\<^verbatim>\<open>x != nil\<close> for an optional value.\<close>

fun notNil :: "'a option \<Rightarrow> bool" where
  "notNil None = False"
| "notNil (Some x) = True"

datatype Kind =
  ManagedClusterKind | NamespaceKind | ClusterDeploymentKind | SecretKind | ServiceAccountKind

text \<open>
  Every request the controller sends is recorded: the verb, the kind, the namespace and
  the name. \<open>External\<close> marks the work of a collaborator that is not part of this file.
\<close>

datatype Call =
    Get Kind string string
  | Update Kind string string
  | Delete Kind string string
  | StatusPatch Kind string string
  | External string

fun mutating :: "Call \<Rightarrow> bool" where
  "mutating (Get k ns n) = False"
| "mutating (Update k ns n) = True"
| "mutating (Delete k ns n) = True"
| "mutating (StatusPatch k ns n) = True"
| "mutating (External what) = True"

text \<open>
  The store holds the objects, the trace of the calls made so far, and \<open>faults\<close>: the
  error, if any, with which the API answers a given request whatever the objects are
  (a conflict, a timeout, an object deleted by somebody else in the meantime).
\<close>

record store =
  objects :: "Kind \<times> string \<times> string \<rightharpoonup> Object"
  faults :: "Call \<Rightarrow> error option"
  calls :: "Call list"

definition record_call :: "Call \<Rightarrow> store \<Rightarrow> store" where
  "record_call c s = s\<lparr>calls := calls s @ [c]\<rparr>"

definition NewNotFound :: "Kind \<Rightarrow> string \<Rightarrow> error" where
  "NewNotFound k n = StatusError ''NotFound'' (n @ '' not found'')"

text \<open>
  What the API answers to a read: the injected fault, not-found, or the object, which
  carries the name and the namespace it was asked for.
\<close>

definition store_Get :: "Kind \<Rightarrow> string \<Rightarrow> string \<Rightarrow> store \<Rightarrow> error + Object" where
  "store_Get k ns n s =
     (case faults s (Get k ns n) of
        Some e \<Rightarrow> Inl e
      | None \<Rightarrow>
          (case objects s (k, ns, n) of
             None \<Rightarrow> Inl (NewNotFound k n)
           | Some obj \<Rightarrow> Inr (obj\<lparr>Name := n, Namespace := ns\<rparr>)))"

definition client_Get :: "Kind \<Rightarrow> string \<Rightarrow> string \<Rightarrow> store \<Rightarrow> (error + Object) \<times> store" where
  "client_Get k ns n s = (store_Get k ns n s, record_call (Get k ns n) s)"

text \<open>
  An update stores the object as it is sent, so the answer of the API, decoded into the
  object, is the object itself. A delete removes the object.
\<close>

definition client_Update :: "Kind \<Rightarrow> Object \<Rightarrow> store \<Rightarrow> error option \<times> store" where
  "client_Update k obj s =
     (let key = (k, Namespace obj, Name obj);
          c = Update k (Namespace obj) (Name obj);
          s1 = record_call c s
      in case faults s c of
           Some e \<Rightarrow> (Some e, s1)
         | None \<Rightarrow>
             (case objects s key of
                None \<Rightarrow> (Some (NewNotFound k (Name obj)), s1)
              | Some old \<Rightarrow> (None, s1\<lparr>objects := (objects s1)(key \<mapsto> obj)\<rparr>)))"

definition client_Delete :: "Kind \<Rightarrow> Object \<Rightarrow> store \<Rightarrow> error option \<times> store" where
  "client_Delete k obj s =
     (let key = (k, Namespace obj, Name obj);
          c = Delete k (Namespace obj) (Name obj);
          s1 = record_call c s
      in case faults s c of
           Some e \<Rightarrow> (Some e, s1)
         | None \<Rightarrow>
             (case objects s key of
                None \<Rightarrow> (Some (NewNotFound k (Name obj)), s1)
              | Some old \<Rightarrow> (None, s1\<lparr>objects := (objects s1)(key := None)\<rparr>)))"

text \<open>
  \<^verbatim>\<open>r.client.Status().Patch(ctx, obj, client.MergeFrom(base))\<close>: the patch is the
  difference between \<open>base\<close> and \<open>obj\<close>. Of the modelled fields only the conditions
  belong to the status, and a merge patch replaces a list as a whole. When the patch is
  accepted, the answer of the API, the object as it is stored after the patch, is
  decoded into \<open>obj\<close>; when it is refused \<open>obj\<close> stays as it was. The function returns
  the error and \<open>obj\<close> as the call leaves it.
\<close>

definition client_Status_Patch ::
  "Kind \<Rightarrow> Object \<Rightarrow> Object \<Rightarrow> store \<Rightarrow> (error option \<times> Object) \<times> store" where
  "client_Status_Patch k obj base s =
     (let key = (k, Namespace obj, Name obj);
          c = StatusPatch k (Namespace obj) (Name obj);
          s1 = record_call c s
      in case faults s c of
           Some e \<Rightarrow> ((Some e, obj), s1)
         | None \<Rightarrow>
             (case objects s key of
                None \<Rightarrow> ((Some (NewNotFound k (Name obj)), obj), s1)
              | Some cur \<Rightarrow>
                  if Conditions obj = Conditions base
                  then ((None, cur\<lparr>Name := Name obj, Namespace := Namespace obj\<rparr>), s1)
                  else
                    ((None, cur\<lparr>Name := Name obj, Namespace := Namespace obj,
                                Conditions := Conditions obj\<rparr>),
                     s1\<lparr>objects := (objects s1)(key \<mapsto> cur\<lparr>Conditions := Conditions obj\<rparr>)\<rparr>)))"

section \<open>Constants and library functions\<close>

definition managedClusterFinalizer :: string where
  "managedClusterFinalizer = ''managedcluster-import-controller.open-cluster-management.io/cleanup''"

definition clusterLabel :: string where
  "clusterLabel = ''cluster.open-cluster-management.io/managedCluster''"

definition selfManagedLabel :: string where
  "selfManagedLabel = ''local-cluster''"

definition autoImportSecretName :: string where
  "autoImportSecretName = ''auto-import-secret''"

definition ManagedClusterImportSucceeded :: string where
  "ManagedClusterImportSucceeded = ''ManagedClusterImportSucceeded''"

definition ManagedClusterConditionAvailable :: string where
  "ManagedClusterConditionAvailable = ''ManagedClusterConditionAvailable''"

text \<open>\<^verbatim>\<open>strconv.ParseBool\<close>: the value and the error it returns.\<close>

definition ParseBool :: "string \<Rightarrow> bool \<times> error option" where
  "ParseBool str =
     (if str \<in> set [''1'', ''t'', ''T'', ''true'', ''TRUE'', ''True''] then (True, None)
      else if str \<in> set [''0'', ''f'', ''F'', ''false'', ''FALSE'', ''False''] then (False, None)
      else (False, Some (NumError ''ParseBool'' str)))"

text \<open>\<^verbatim>\<open>libgometav1.AddFinalizer\<close> and \<^verbatim>\<open>RemoveFinalizer\<close>, on the list of finalizers.\<close>

definition AddFinalizer :: "string list \<Rightarrow> string \<Rightarrow> string list" where
  "AddFinalizer fs f = (if f \<in> set fs then fs else fs @ [f])"

definition RemoveFinalizer :: "string list \<Rightarrow> string \<Rightarrow> string list" where
  "RemoveFinalizer fs f = filter (\<lambda>x. x \<noteq> f) fs"

text \<open>
  \<^verbatim>\<open>meta.SetStatusCondition\<close>: a condition of a new type is appended; an existing one
  keeps its place and takes the status, reason and message (transition times are not
  modelled).
\<close>

fun SetStatusCondition :: "Condition list \<Rightarrow> Condition \<Rightarrow> Condition list" where
  "SetStatusCondition [] newCondition = [newCondition]"
| "SetStatusCondition (c # cs) newCondition =
     (if Type c = Type newCondition
      then c\<lparr>Status := Status newCondition, Reason := Reason newCondition,
              Message := Message newCondition\<rparr> # cs
      else c # SetStatusCondition cs newCondition)"

section \<open>The controller\<close>

subsection \<open>Results, requests and collaborators\<close>

record Result =
  Requeue :: bool
  RequeueAfter :: int

text \<open>\<^verbatim>\<open>reconcile.Result{}\<close>, and \<^verbatim>\<open>time.Minute\<close> in nanoseconds.\<close>

definition emptyResult :: Result where
  "emptyResult = \<lparr>Requeue = False, RequeueAfter = 0\<rparr>"

definition Minute :: int where
  "Minute = 60 * 1000000000"

record Request =
  Request_Namespace :: string
  Request_Name :: string

record config =
  ManagedClusterName :: string
  ManagedClusterNamespace :: string
  BootstrapServiceAccountName :: string

text \<open>
  The collaborators of the reconciler live in other files and packages; they are
  parameters. Each takes the store and returns it; one that receives the managed
  cluster by reference also returns the managed cluster as it leaves it. \<open>Quote\<close> is
  \<^verbatim>\<open>strconv.Quote\<close>.
\<close>

record env =
  Quote :: "string \<Rightarrow> string"
  bootstrapServiceAccountNamePostfix :: string
  managedClusterDeletion :: "Object \<Rightarrow> store \<Rightarrow> (Result \<times> error option) \<times> store"
  NewApplier :: "Object \<Rightarrow> store \<Rightarrow> error option \<times> Object \<times> store"
  CreateResource :: "string \<Rightarrow> config \<Rightarrow> Object \<Rightarrow> store \<Rightarrow> error option \<times> Object \<times> store"
  CreateOrUpdateInPath ::
    "string \<Rightarrow> string list \<Rightarrow> bool \<Rightarrow> config \<Rightarrow> Object \<Rightarrow> store \<Rightarrow> error option \<times> Object \<times> store"
  generateImportYAMLs ::
    "Object \<Rightarrow> string list \<Rightarrow> store \<Rightarrow> (string list \<times> string list \<times> error option) \<times> Object \<times> store"
  createOrUpdateImportSecret ::
    "Object \<Rightarrow> string list \<Rightarrow> string list \<Rightarrow> store \<Rightarrow> error option \<times> Object \<times> store"
  deleteKlusterletSyncSets :: "Object \<Rightarrow> store \<Rightarrow> (Result \<times> error option) \<times> Object \<times> store"
  createOrUpdateManifestWorks ::
    "Object \<Rightarrow> string list \<Rightarrow> string list \<Rightarrow> store \<Rightarrow> error option \<times> Object \<times> store"
  importCluster ::
    "Object \<Rightarrow> Object option \<Rightarrow> Object option \<Rightarrow> store \<Rightarrow> (Result \<times> error option) \<times> Object \<times> store"

subsection \<open>checkOffLine\<close>

fun checkOffLine_loop :: "Condition list \<Rightarrow> bool" where
  "checkOffLine_loop [] = True"
| "checkOffLine_loop (sc # scs) =
     (if Type sc = ManagedClusterConditionAvailable
      then (Status sc = ConditionUnknown \<or> Status sc = ConditionFalse)
      else checkOffLine_loop scs)"

definition checkOffLine :: "Object \<Rightarrow> bool" where
  "checkOffLine managedCluster = checkOffLine_loop (Conditions managedCluster)"

subsection \<open>toBeImported\<close>

text \<open>Returns the auto-import secret, the cluster deployment, the decision and the error.\<close>

definition toBeImported ::
  "Object \<Rightarrow> store \<Rightarrow> (Object option \<times> Object option \<times> bool \<times> error option) \<times> store" where
  "toBeImported managedCluster s =
     (case Labels managedCluster selfManagedLabel of
        Some v \<Rightarrow> (case ParseBool v of (toImport, err) \<Rightarrow> ((None, None, toImport, err), s))
      | None \<Rightarrow>
          (case client_Get ClusterDeploymentKind (Name managedCluster) (Name managedCluster) s of
             (Inr clusterDeployment, s1) \<Rightarrow> ((None, Some clusterDeployment, True, None), s1)
           | (Inl err, s1) \<Rightarrow>
               if \<not> IsNotFound err then ((None, None, False, Some err), s1)
               else
                 (case client_Get SecretKind (Name managedCluster) autoImportSecretName s1 of
                    (Inl err2, s2) \<Rightarrow>
                      if IsNotFound err2 then ((None, None, False, None), s2)
                      else ((None, None, False, Some err2), s2)
                  | (Inr autoImportSecret, s2) \<Rightarrow>
                      ((Some autoImportSecret, None, True, None), s2))))"

subsection \<open>setConditionImport\<close>

text \<open>Returns the error and the managed cluster as the function leaves it in memory.\<close>

definition importCondition :: "(string \<Rightarrow> string) \<Rightarrow> error option \<Rightarrow> string \<Rightarrow> Condition" where
  "importCondition quote errIn reason =
     (case errIn of
        None \<Rightarrow>
          \<lparr>Type = ManagedClusterImportSucceeded, Status = ConditionTrue,
           Reason = ''ManagedClusterImported'', Message = ''Import succeeded''\<rparr>
      | Some e \<Rightarrow>
          \<lparr>Type = ManagedClusterImportSucceeded, Status = ConditionFalse,
           Reason = ''ManagedClusterNotImported'',
           Message = (if reason \<noteq> [] then Error quote e @ '': '' @ reason else Error quote e)\<rparr>)"

definition setConditionImport ::
  "env \<Rightarrow> Object \<Rightarrow> error option \<Rightarrow> string \<Rightarrow> store \<Rightarrow> (error option \<times> Object) \<times> store" where
  "setConditionImport r managedCluster errIn reason s =
     (let newCondition = importCondition (Quote r) errIn reason;
          base = managedCluster;
          managedCluster1 =
            managedCluster\<lparr>Conditions := SetStatusCondition (Conditions managedCluster) newCondition\<rparr>
      in case client_Status_Patch ManagedClusterKind managedCluster1 base s of
           ((Some err, managedCluster2), s1) \<Rightarrow> ((Some err, managedCluster2), s1)
         | ((None, managedCluster2), s1) \<Rightarrow> ((errIn, managedCluster2), s1))"

subsection \<open>deleteNamespace\<close>

definition blockedError :: "string \<Rightarrow> error" where
  "blockedError namespaceName =
     ErrorString (''can not delete namespace '' @ namespaceName @
                  '' as ClusterDeployment '' @ namespaceName @ '' still exist'')"

definition deleteNamespace :: "string \<Rightarrow> store \<Rightarrow> error option \<times> store" where
  "deleteNamespace namespaceName s =
     (case client_Get NamespaceKind [] namespaceName s of
        (Inl err, s1) \<Rightarrow> if IsNotFound err then (None, s1) else (Some err, s1)
      | (Inr ns, s1) \<Rightarrow>
          if notNil (DeletionTimestamp ns) then (None, s1)
          else
            (case client_Get ClusterDeploymentKind namespaceName namespaceName s1 of
               (Inl err, s2) \<Rightarrow>
                 if IsNotFound err then
                   (let tobeDeleted = True in
                    if tobeDeleted then
                      (case client_Delete NamespaceKind ns s2 of
                         (Some derr, s3) \<Rightarrow>
                           if \<not> IsNotFound derr then (Some derr, s3) else (None, s3)
                       | (None, s3) \<Rightarrow> (None, s3))
                    else (None, s2))
                 else (Some err, s2)
             | (Inr clusterDeployment, s2) \<Rightarrow>
                 (case client_Update ClusterDeploymentKind
                         (clusterDeployment\<lparr>Finalizers :=
                            RemoveFinalizer (Finalizers clusterDeployment) managedClusterFinalizer\<rparr>) s2 of
                    (Some uerr, s3) \<Rightarrow> (Some uerr, s3)
                  | (None, s3) \<Rightarrow> (Some (blockedError namespaceName), s3))))"

subsection \<open>Reconcile\<close>

definition serviceAccountYaml :: string where
  "serviceAccountYaml = ''hub/managedcluster/manifests/managedcluster-service-account.yaml''"

text \<open>
  Lines 159 to 195: the finalizer, the name label, the update of the managed cluster,
  and the cluster label on the namespace.
\<close>

definition Reconcile_labels :: "Object \<Rightarrow> store \<Rightarrow> error option \<times> Object \<times> store" where
  "Reconcile_labels instance0 s =
     (let instance1 =
            instance0\<lparr>Finalizers := AddFinalizer (Finalizers instance0) managedClusterFinalizer\<rparr>;
          instanceLabels = Labels instance1;
          instance =
            (case instanceLabels ''name'' of
               None \<Rightarrow> instance1\<lparr>Labels := instanceLabels(''name'' \<mapsto> Name instance1)\<rparr>
             | Some v \<Rightarrow> instance1)
      in case client_Update ManagedClusterKind instance s of
           (Some err, s1) \<Rightarrow> (Some err, instance, s1)
         | (None, s1) \<Rightarrow>
             (case client_Get NamespaceKind [] (Name instance) s1 of
                (Inl err, s2) \<Rightarrow> (Some err, instance, s2)
              | (Inr ns, s2) \<Rightarrow>
                  (case Labels ns clusterLabel of
                     Some v \<Rightarrow> (None, instance, s2)
                   | None \<Rightarrow>
                       (case client_Update NamespaceKind
                               (ns\<lparr>Labels := (Labels ns)(clusterLabel \<mapsto> Name instance)\<rparr>) s2 of
                          (Some err, s3) \<Rightarrow> (Some err, instance, s3)
                        | (None, s3) \<Rightarrow> (None, instance, s3)))))"

text \<open>Lines 197 to 237: the configuration, the applier and the bootstrap service account.\<close>

definition Reconcile_bootstrap ::
  "env \<Rightarrow> Object \<Rightarrow> store \<Rightarrow> error option \<times> config \<times> Object \<times> store" where
  "Reconcile_bootstrap r instance s =
     (let config =
            \<lparr>ManagedClusterName = Name instance,
             ManagedClusterNamespace = Name instance,
             BootstrapServiceAccountName = Name instance @ bootstrapServiceAccountNamePostfix r\<rparr>
      in case NewApplier r instance s of
           (Some err, instance1, s1) \<Rightarrow> (Some err, config, instance1, s1)
         | (None, instance1, s1) \<Rightarrow>
             (case client_Get ServiceAccountKind (Name instance1)
                     (Name instance1 @ bootstrapServiceAccountNamePostfix r) s1 of
                (Inl err, s2) \<Rightarrow>
                  if IsNotFound err then
                    (case CreateResource r serviceAccountYaml config instance1 s2 of
                       (Some cerr, instance2, s3) \<Rightarrow> (Some cerr, config, instance2, s3)
                     | (None, instance2, s3) \<Rightarrow> (None, config, instance2, s3))
                  else (None, config, instance1, s2)
              | (Inr sa, s2) \<Rightarrow> (None, config, instance1, s2)))"

text \<open>
  Lines 239 to 267: the other manifests, the import secret and the sync sets. \<open>Inl\<close> is
  what \<^verbatim>\<open>Reconcile\<close> returns at once, \<open>Inr\<close> what the rest of it goes on with.
\<close>

definition Reconcile_manifests ::
  "env \<Rightarrow> config \<Rightarrow> Object \<Rightarrow> store \<Rightarrow>
     ((Result \<times> error option) + (string list \<times> string list \<times> Object)) \<times> store" where
  "Reconcile_manifests r config instance s =
     (case CreateOrUpdateInPath r ''hub/managedcluster/manifests'' [serviceAccountYaml] False
             config instance s of
        (Some err, instance1, s1) \<Rightarrow> (Inl (emptyResult, Some err), s1)
      | (None, instance1, s1) \<Rightarrow>
          (case generateImportYAMLs r instance1 [] s1 of
             ((crds, yamls, Some err), instance2, s2) \<Rightarrow> (Inl (emptyResult, Some err), s2)
           | ((crds, yamls, None), instance2, s2) \<Rightarrow>
               (case createOrUpdateImportSecret r instance2 crds yamls s2 of
                  (Some err, instance3, s3) \<Rightarrow> (Inl (emptyResult, Some err), s3)
                | (None, instance3, s3) \<Rightarrow>
                    (case deleteKlusterletSyncSets r instance3 s3 of
                       ((result, Some err), instance4, s4) \<Rightarrow> (Inl (result, Some err), s4)
                     | ((result, None), instance4, s4) \<Rightarrow>
                         (Inr (crds, yamls, instance4), s4)))))"

text \<open>Lines 277 to 297: the branch of a cluster that is off line.\<close>

definition Reconcile_import :: "env \<Rightarrow> Object \<Rightarrow> store \<Rightarrow> (Result \<times> error option) \<times> store" where
  "Reconcile_import r instance s =
     (case toBeImported instance s of
        ((autoImportSecret, clusterDeployment, toImport, Some err), s1) \<Rightarrow>
          ((emptyResult, Some err), s1)
      | ((autoImportSecret, clusterDeployment, toImport, None), s1) \<Rightarrow>
          if \<not> toImport then ((emptyResult, None), s1)
          else
            (case importCluster r instance clusterDeployment autoImportSecret s1 of
               ((result, err), instance1, s2) \<Rightarrow>
                 if Requeue result \<or> notNil err then ((result, err), s2)
                 else
                   (case setConditionImport r instance1 err
                           (''Unable to import '' @ Name instance1) s2 of
                      ((errCond, instance2), s3) \<Rightarrow> ((result, err), s3))))"

definition Reconcile :: "env \<Rightarrow> Request \<Rightarrow> store \<Rightarrow> (Result \<times> error option) \<times> store" where
  "Reconcile r request s =
     (case client_Get ManagedClusterKind [] (Request_Name request) s of
        (Inl err, s1) \<Rightarrow>
          if IsNotFound err then
            (case deleteNamespace (Request_Name request) s1 of
               (Some err2, s2) \<Rightarrow> ((\<lparr>Requeue = True, RequeueAfter = 1 * Minute\<rparr>, None), s2)
             | (None, s2) \<Rightarrow> ((emptyResult, None), s2))
          else ((emptyResult, Some err), s1)
      | (Inr instance, s1) \<Rightarrow>
          if notNil (DeletionTimestamp instance) then managedClusterDeletion r instance s1
          else
            (case Reconcile_labels instance s1 of
               (Some err, instance1, s2) \<Rightarrow> ((emptyResult, Some err), s2)
             | (None, instance1, s2) \<Rightarrow>
                 (case Reconcile_bootstrap r instance1 s2 of
                    (Some err, config, instance2, s3) \<Rightarrow> ((emptyResult, Some err), s3)
                  | (None, config, instance2, s3) \<Rightarrow>
                      (case Reconcile_manifests r config instance2 s3 of
                         (Inl ret, s4) \<Rightarrow> (ret, s4)
                       | (Inr (crds, yamls, instance3), s4) \<Rightarrow>
                           if \<not> checkOffLine instance3 then
                             (case createOrUpdateManifestWorks r instance3 crds yamls s4 of
                                (Some err, instance4, s5) \<Rightarrow> ((emptyResult, Some err), s5)
                              | (None, instance4, s5) \<Rightarrow> ((emptyResult, None), s5))
                           else Reconcile_import r instance3 s4))))"

section \<open>Example clusters and stores\<close>

text \<open>
  Concrete inputs on which the definitions are evaluated. \<open>quietEnv\<close> is a set of
  collaborators that succeed and leave only a mark in the trace; in
  \<open>failingImportEnv\<close> the import fails.
\<close>

definition cluster1 :: Object where
  "cluster1 = \<lparr>Name = ''cluster1'', Namespace = [], Labels = Map.empty, Finalizers = [],
               DeletionTimestamp = None, Conditions = []\<rparr>"

definition namespace1 :: Object where
  "namespace1 = \<lparr>Name = ''cluster1'', Namespace = [], Labels = Map.empty, Finalizers = [],
               DeletionTimestamp = None, Conditions = []\<rparr>"

definition deployment1 :: Object where
  "deployment1 = \<lparr>Name = ''cluster1'', Namespace = ''cluster1'', Labels = Map.empty,
               Finalizers = [managedClusterFinalizer],
               DeletionTimestamp = None, Conditions = []\<rparr>"

definition secret1 :: Object where
  "secret1 = \<lparr>Name = autoImportSecretName, Namespace = ''cluster1'', Labels = Map.empty,
               Finalizers = [], DeletionTimestamp = None, Conditions = []\<rparr>"

definition noFaults :: "Call \<Rightarrow> error option" where
  "noFaults c = None"

definition emptyStore :: store where
  "emptyStore = \<lparr>objects = Map.empty, faults = noFaults, calls = []\<rparr>"

definition hiveStore :: store where
  "hiveStore =
     \<lparr>objects = [(NamespaceKind, [], ''cluster1'') \<mapsto> namespace1,
                 (ClusterDeploymentKind, ''cluster1'', ''cluster1'') \<mapsto> deployment1,
                 (SecretKind, ''cluster1'', autoImportSecretName) \<mapsto> secret1],
      faults = noFaults, calls = []\<rparr>"

definition account1 :: Object where
  "account1 = \<lparr>Name = ''cluster1-bootstrap-sa'', Namespace = ''cluster1'', Labels = Map.empty,
               Finalizers = [], DeletionTimestamp = None, Conditions = []\<rparr>"

definition terminatingStore :: store where
  "terminatingStore =
     \<lparr>objects = [(NamespaceKind, [], ''cluster1'') \<mapsto> namespace1\<lparr>DeletionTimestamp := Some 1\<rparr>,
                 (ClusterDeploymentKind, ''cluster1'', ''cluster1'') \<mapsto> deployment1],
      faults = noFaults, calls = []\<rparr>"

definition namespaceStore :: store where
  "namespaceStore =
     \<lparr>objects = [(NamespaceKind, [], ''cluster1'') \<mapsto> namespace1],
      faults = noFaults, calls = []\<rparr>"

definition racedStore :: store where
  "racedStore =
     namespaceStore\<lparr>faults :=
       noFaults(Delete NamespaceKind [] ''cluster1'' \<mapsto> StatusError ''NotFound'' ''cluster1 not found'')\<rparr>"

definition refusedStore :: store where
  "refusedStore =
     hiveStore\<lparr>faults :=
       noFaults(Update ClusterDeploymentKind ''cluster1'' ''cluster1'' \<mapsto>
                  StatusError ''Conflict'' ''the object has been modified'')\<rparr>"

definition importedCluster1 :: Object where
  "importedCluster1 =
     cluster1\<lparr>Conditions :=
       [\<lparr>Type = ManagedClusterImportSucceeded, Status = ConditionTrue,
         Reason = ''ManagedClusterImported'', Message = ''Import succeeded''\<rparr>]\<rparr>"

definition quietEnv :: env where
  "quietEnv =
     \<lparr>Quote = (\<lambda>v. [CHR 0x22] @ v @ [CHR 0x22]),
      bootstrapServiceAccountNamePostfix = ''-bootstrap-sa'',
      managedClusterDeletion =
        (\<lambda>instance s. ((emptyResult, None), record_call (External ''managedClusterDeletion'') s)),
      NewApplier = (\<lambda>instance s. (None, instance, s)),
      CreateResource =
        (\<lambda>path config instance s. (None, instance, record_call (External ''CreateResource'') s)),
      CreateOrUpdateInPath =
        (\<lambda>path excluded recursive config instance s.
           (None, instance, record_call (External ''CreateOrUpdateInPath'') s)),
      generateImportYAMLs =
        (\<lambda>instance excluded s.
           (([], [], None), instance, record_call (External ''generateImportYAMLs'') s)),
      createOrUpdateImportSecret =
        (\<lambda>instance crds yamls s.
           (None, instance, record_call (External ''createOrUpdateImportSecret'') s)),
      deleteKlusterletSyncSets =
        (\<lambda>instance s.
           ((emptyResult, None), instance, record_call (External ''deleteKlusterletSyncSets'') s)),
      createOrUpdateManifestWorks =
        (\<lambda>instance crds yamls s.
           (None, instance, record_call (External ''createOrUpdateManifestWorks'') s)),
      importCluster =
        (\<lambda>instance clusterDeployment autoImportSecret s.
           ((emptyResult, None), instance, record_call (External ''importCluster'') s))\<rparr>"

definition failingImportEnv :: env where
  "failingImportEnv =
     quietEnv\<lparr>importCluster :=
        (\<lambda>instance clusterDeployment autoImportSecret s.
           ((emptyResult, Some (ErrorString ''import failed'')), instance,
            record_call (External ''importCluster'') s))\<rparr>"

definition request1 :: Request where
  "request1 = \<lparr>Request_Namespace = [], Request_Name = ''cluster1''\<rparr>"

definition available :: Condition where
  "available = \<lparr>Type = ManagedClusterConditionAvailable, Status = ConditionTrue,
                Reason = ''ManagedClusterAvailable'', Message = ''Managed cluster is available''\<rparr>"

definition offlineStore :: store where
  "offlineStore =
     \<lparr>objects = [(ManagedClusterKind, [], ''cluster1'') \<mapsto> cluster1,
                 (NamespaceKind, [], ''cluster1'') \<mapsto> namespace1,
                 (SecretKind, ''cluster1'', autoImportSecretName) \<mapsto> secret1],
      faults = noFaults, calls = []\<rparr>"

definition onlineStore :: store where
  "onlineStore =
     \<lparr>objects = [(ManagedClusterKind, [], ''cluster1'') \<mapsto> cluster1\<lparr>Conditions := [available]\<rparr>,
                 (NamespaceKind, [], ''cluster1'') \<mapsto> namespace1,
                 (ServiceAccountKind, ''cluster1'', ''cluster1-bootstrap-sa'') \<mapsto> account1],
      faults = noFaults, calls = []\<rparr>"

definition brokenAccountStore :: store where
  "brokenAccountStore =
     onlineStore\<lparr>faults :=
       noFaults(Get ServiceAccountKind ''cluster1'' ''cluster1-bootstrap-sa'' \<mapsto>
                  StatusError ''InternalError'' ''etcd unavailable'')\<rparr>"

definition conflictStore :: store where
  "conflictStore =
     offlineStore\<lparr>faults :=
       noFaults(StatusPatch ManagedClusterKind [] ''cluster1'' \<mapsto>
                  StatusError ''Conflict'' ''the object has been modified'')\<rparr>"

definition preparedCluster1 :: Object where
  "preparedCluster1 =
     cluster1\<lparr>Finalizers := [managedClusterFinalizer], Labels := [''name'' \<mapsto> ''cluster1'']\<rparr>"

definition preparedStore :: store where
  "preparedStore =
     \<lparr>objects = [(ManagedClusterKind, [], ''cluster1'') \<mapsto> preparedCluster1,
                 (NamespaceKind, [], ''cluster1'') \<mapsto>
                    namespace1\<lparr>Labels := [clusterLabel \<mapsto> ''cluster1'']\<rparr>,
                 (SecretKind, ''cluster1'', autoImportSecretName) \<mapsto> secret1],
      faults = noFaults,
      calls = [Update ManagedClusterKind [] ''cluster1'', Get NamespaceKind [] ''cluster1'',
               Update NamespaceKind [] ''cluster1'']\<rparr>"

section \<open>Properties\<close>

subsection \<open>The store\<close>

lemma store_Get_record_call [simp]:
  "store_Get k ns n (record_call c s) = store_Get k ns n s"
  by (simp add: store_Get_def record_call_def split: option.splits)

lemma calls_record_call [simp]: "calls (record_call c s) = calls s @ [c]"
  by (simp add: record_call_def)

lemma objects_record_call [simp]: "objects (record_call c s) = objects s"
  by (simp add: record_call_def)

lemma faults_record_call [simp]: "faults (record_call c s) = faults s"
  by (simp add: record_call_def)

lemma store_Get_Inr_objects:
  "store_Get k ns n s = Inr obj \<Longrightarrow>
     faults s (Get k ns n) = None \<and> (\<exists>old. objects s (k, ns, n) = Some old) \<and> Name obj = n \<and> Namespace obj = ns"
  by (auto simp: store_Get_def split: option.splits)

lemmas eval_defs =
  Reconcile_def Reconcile_labels_def Reconcile_bootstrap_def Reconcile_manifests_def
  Reconcile_import_def toBeImported_def setConditionImport_def importCondition_def
  client_Get_def client_Update_def client_Status_Patch_def store_Get_def Let_def
  AddFinalizer_def NewNotFound_def checkOffLine_def
  selfManagedLabel_def managedClusterFinalizer_def clusterLabel_def autoImportSecretName_def
  ManagedClusterImportSucceeded_def ManagedClusterConditionAvailable_def serviceAccountYaml_def
  emptyResult_def ConditionTrue_def ConditionFalse_def ConditionUnknown_def

lemmas example_defs =
  offlineStore_def onlineStore_def brokenAccountStore_def failingImportEnv_def quietEnv_def
  request1_def cluster1_def namespace1_def secret1_def account1_def available_def noFaults_def

subsection \<open>Reachability\<close>




subsection \<open>The import decision\<close>

text \<open>
  C1. Precedence of the import decision. A self-managed label that parses decides, and
  the store is not consulted; one that does not parse gives the syntax error. Without
  the label, a cluster deployment of the cluster's name and namespace decides for the
  import and is returned, and the auto-import secret is not looked up. Without the
  label, the deployment and the secret, the decision is not to import, with no error.
\<close>

theorem toBeImported_precedence:
  "(Labels mc selfManagedLabel = Some v \<and> ParseBool v = (b, None)
      \<longrightarrow> toBeImported mc s = ((None, None, b, None), s))
   \<and> (Labels mc selfManagedLabel = Some v \<and> ParseBool v = (b, Some e)
      \<longrightarrow> toBeImported mc s = ((None, None, False, Some e), s) \<and> e = NumError ''ParseBool'' v)
   \<and> (Labels mc selfManagedLabel = None
       \<and> store_Get ClusterDeploymentKind (Name mc) (Name mc) s = Inr cd
      \<longrightarrow> toBeImported mc s =
            ((None, Some cd, True, None),
             record_call (Get ClusterDeploymentKind (Name mc) (Name mc)) s))
   \<and> (Labels mc selfManagedLabel = None
       \<and> store_Get ClusterDeploymentKind (Name mc) (Name mc) s = Inl e1 \<and> IsNotFound e1
       \<and> store_Get SecretKind (Name mc) autoImportSecretName s = Inl e2 \<and> IsNotFound e2
      \<longrightarrow> fst (toBeImported mc s) = (None, None, False, None))"
  by (auto simp: toBeImported_def client_Get_def ParseBool_def split: if_splits)


theorem toBeImported_precedence_witness:
  "toBeImported (cluster1\<lparr>Labels := [selfManagedLabel \<mapsto> ''true'']\<rparr>) hiveStore
     = ((None, None, True, None), hiveStore)
   \<and> toBeImported (cluster1\<lparr>Labels := [selfManagedLabel \<mapsto> ''yes'']\<rparr>) hiveStore
     = ((None, None, False, Some (NumError ''ParseBool'' ''yes'')), hiveStore)
   \<and> toBeImported cluster1 hiveStore
     = ((None, Some deployment1, True, None),
        record_call (Get ClusterDeploymentKind ''cluster1'' ''cluster1'') hiveStore)
   \<and> fst (toBeImported cluster1 emptyStore) = (None, None, False, None)"
proof -
  let ?t = "cluster1\<lparr>Labels := [selfManagedLabel \<mapsto> ''true'']\<rparr>"
  let ?y = "cluster1\<lparr>Labels := [selfManagedLabel \<mapsto> ''yes'']\<rparr>"
  have a: "Labels ?t selfManagedLabel = Some ''true'' \<and> ParseBool ''true'' = (True, None)"
    by (simp add: ParseBool_def)
  have b: "Labels ?y selfManagedLabel = Some ''yes''
           \<and> ParseBool ''yes'' = (False, Some (NumError ''ParseBool'' ''yes''))"
    by (simp add: ParseBool_def)
  have c: "Labels cluster1 selfManagedLabel = None
           \<and> store_Get ClusterDeploymentKind (Name cluster1) (Name cluster1) hiveStore = Inr deployment1"
    by (simp add: cluster1_def store_Get_def hiveStore_def noFaults_def deployment1_def)
  have d: "Labels cluster1 selfManagedLabel = None
           \<and> store_Get ClusterDeploymentKind (Name cluster1) (Name cluster1) emptyStore
               = Inl (NewNotFound ClusterDeploymentKind ''cluster1'')
           \<and> IsNotFound (NewNotFound ClusterDeploymentKind ''cluster1'')
           \<and> store_Get SecretKind (Name cluster1) autoImportSecretName emptyStore
               = Inl (NewNotFound SecretKind autoImportSecretName)
           \<and> IsNotFound (NewNotFound SecretKind autoImportSecretName)"
    by (simp add: cluster1_def store_Get_def emptyStore_def noFaults_def NewNotFound_def)
  have n: "Name cluster1 = ''cluster1''" by (simp add: cluster1_def)
  from toBeImported_precedence [of ?t "''true''" True hiveStore] a
  have 1: "toBeImported ?t hiveStore = ((None, None, True, None), hiveStore)" by blast
  from toBeImported_precedence [of ?y "''yes''" False hiveStore "NumError ''ParseBool'' ''yes''"] b
  have 2: "toBeImported ?y hiveStore
             = ((None, None, False, Some (NumError ''ParseBool'' ''yes'')), hiveStore)" by blast
  from toBeImported_precedence [of cluster1 _ _ hiveStore _ deployment1] c
  have 3: "toBeImported cluster1 hiveStore
     = ((None, Some deployment1, True, None),
        record_call (Get ClusterDeploymentKind ''cluster1'' ''cluster1'') hiveStore)"
    unfolding n by blast
  from toBeImported_precedence [of cluster1 _ _ emptyStore _ _
         "NewNotFound ClusterDeploymentKind ''cluster1''" "NewNotFound SecretKind autoImportSecretName"] d
  have 4: "fst (toBeImported cluster1 emptyStore) = (None, None, False, None)" by blast
  from 1 2 3 4 show ?thesis by blast
qed

text \<open>
  C7, as the code has it. The decision makes no lookup when the self-managed label is
  there, one lookup (the cluster deployment) when that lookup finds the record or fails
  with an unexpected error, and two lookups (the cluster deployment, then the
  auto-import secret) when the deployment is not found: at most two, and never one for
  a rule below the rule that decided. The store is only read.
\<close>

theorem toBeImported_lookups:
  "calls (snd (toBeImported mc s)) = calls s @
     (if notNil (Labels mc selfManagedLabel) then []
      else case store_Get ClusterDeploymentKind (Name mc) (Name mc) s of
             Inr cd \<Rightarrow> [Get ClusterDeploymentKind (Name mc) (Name mc)]
           | Inl e \<Rightarrow>
               if IsNotFound e
               then [Get ClusterDeploymentKind (Name mc) (Name mc),
                     Get SecretKind (Name mc) autoImportSecretName]
               else [Get ClusterDeploymentKind (Name mc) (Name mc)])
   \<and> objects (snd (toBeImported mc s)) = objects s
   \<and> faults (snd (toBeImported mc s)) = faults s
   \<and> length (calls (snd (toBeImported mc s))) \<le> length (calls s) + 2"
  by (auto simp: toBeImported_def client_Get_def record_call_def
           split: option.splits prod.splits sum.splits if_splits)

theorem toBeImported_two_lookups_counterexample:
  "calls emptyStore = []
   \<and> calls (snd (toBeImported cluster1 emptyStore)) =
       [Get ClusterDeploymentKind ''cluster1'' ''cluster1'',
        Get SecretKind ''cluster1'' ''auto-import-secret'']
   \<and> \<not> length (calls (snd (toBeImported cluster1 emptyStore))) \<le> length (calls emptyStore) + 1"
  by (simp add: toBeImported_def client_Get_def record_call_def store_Get_def emptyStore_def
        cluster1_def noFaults_def NewNotFound_def autoImportSecretName_def selfManagedLabel_def)

subsection \<open>Deleting the namespace\<close>

text \<open>
  C9. deleteNamespace succeeds without any request but the lookup when the namespace is
  not found or carries a deletion timestamp. Otherwise, when the cluster deployment is
  not found, it issues one delete of the namespace, and a not-found answer to that
  delete counts as success.
\<close>

theorem deleteNamespace_noop_and_delete:
  "(store_Get NamespaceKind [] n s = Inl e \<and> IsNotFound e
      \<longrightarrow> deleteNamespace n s = (None, record_call (Get NamespaceKind [] n) s))
   \<and> (store_Get NamespaceKind [] n s = Inr ns \<and> notNil (DeletionTimestamp ns)
      \<longrightarrow> deleteNamespace n s = (None, record_call (Get NamespaceKind [] n) s))
   \<and> (store_Get NamespaceKind [] n s = Inr ns \<and> DeletionTimestamp ns = None
       \<and> store_Get ClusterDeploymentKind n n s = Inl e' \<and> IsNotFound e'
      \<longrightarrow> calls (snd (deleteNamespace n s)) =
            calls s @ [Get NamespaceKind [] n, Get ClusterDeploymentKind n n, Delete NamespaceKind [] n]
          \<and> (case faults s (Delete NamespaceKind [] n) of
                None \<Rightarrow> fst (deleteNamespace n s) = None
                        \<and> objects (snd (deleteNamespace n s)) = (objects s)((NamespaceKind, [], n) := None)
              | Some de \<Rightarrow> fst (deleteNamespace n s) = (if IsNotFound de then None else Some de)
                        \<and> objects (snd (deleteNamespace n s)) = objects s))"
proof (intro conjI impI)
  assume "store_Get NamespaceKind [] n s = Inl e \<and> IsNotFound e"
  then show "deleteNamespace n s = (None, record_call (Get NamespaceKind [] n) s)"
    by (simp add: deleteNamespace_def client_Get_def)
next
  assume "store_Get NamespaceKind [] n s = Inr ns \<and> notNil (DeletionTimestamp ns)"
  then show "deleteNamespace n s = (None, record_call (Get NamespaceKind [] n) s)"
    by (simp add: deleteNamespace_def client_Get_def)
next
  assume h: "store_Get NamespaceKind [] n s = Inr ns \<and> DeletionTimestamp ns = None
       \<and> store_Get ClusterDeploymentKind n n s = Inl e' \<and> IsNotFound e'"
  then obtain old where o: "objects s (NamespaceKind, [], n) = Some old"
    and nm: "Name ns = n" "Namespace ns = []"
    using store_Get_Inr_objects [of NamespaceKind "[]" n s ns] by blast
  from h o nm
  show "calls (snd (deleteNamespace n s)) =
            calls s @ [Get NamespaceKind [] n, Get ClusterDeploymentKind n n, Delete NamespaceKind [] n]"
    by (simp add: deleteNamespace_def client_Get_def client_Delete_def Let_def
          split: option.splits)
  from h o nm
  show "case faults s (Delete NamespaceKind [] n) of
                None \<Rightarrow> fst (deleteNamespace n s) = None
                        \<and> objects (snd (deleteNamespace n s)) = (objects s)((NamespaceKind, [], n) := None)
              | Some de \<Rightarrow> fst (deleteNamespace n s) = (if IsNotFound de then None else Some de)
                        \<and> objects (snd (deleteNamespace n s)) = objects s"
    by (simp add: deleteNamespace_def client_Get_def client_Delete_def Let_def
          split: option.splits)
qed

theorem deleteNamespace_noop_and_delete_witness:
  "deleteNamespace ''cluster1'' emptyStore =
     (None, record_call (Get NamespaceKind [] ''cluster1'') emptyStore)
   \<and> deleteNamespace ''cluster1'' terminatingStore =
     (None, record_call (Get NamespaceKind [] ''cluster1'') terminatingStore)
   \<and> calls (snd (deleteNamespace ''cluster1'' namespaceStore)) =
       [Get NamespaceKind [] ''cluster1'', Get ClusterDeploymentKind ''cluster1'' ''cluster1'',
        Delete NamespaceKind [] ''cluster1'']
   \<and> fst (deleteNamespace ''cluster1'' namespaceStore) = None
   \<and> objects (snd (deleteNamespace ''cluster1'' namespaceStore)) (NamespaceKind, [], ''cluster1'') = None
   \<and> calls (snd (deleteNamespace ''cluster1'' racedStore)) =
       [Get NamespaceKind [] ''cluster1'', Get ClusterDeploymentKind ''cluster1'' ''cluster1'',
        Delete NamespaceKind [] ''cluster1'']
   \<and> fst (deleteNamespace ''cluster1'' racedStore) = None"
proof -
  have a: "store_Get NamespaceKind [] ''cluster1'' emptyStore = Inl (NewNotFound NamespaceKind ''cluster1'')
           \<and> IsNotFound (NewNotFound NamespaceKind ''cluster1'')"
    by (simp add: store_Get_def emptyStore_def noFaults_def NewNotFound_def)
  have b: "store_Get NamespaceKind [] ''cluster1'' terminatingStore
             = Inr (namespace1\<lparr>DeletionTimestamp := Some 1\<rparr>)
           \<and> notNil (DeletionTimestamp (namespace1\<lparr>DeletionTimestamp := Some 1\<rparr>))"
    by (simp add: store_Get_def terminatingStore_def noFaults_def namespace1_def)
  have c: "store_Get NamespaceKind [] ''cluster1'' namespaceStore = Inr namespace1
           \<and> DeletionTimestamp namespace1 = None
           \<and> store_Get ClusterDeploymentKind ''cluster1'' ''cluster1'' namespaceStore
               = Inl (NewNotFound ClusterDeploymentKind ''cluster1'')
           \<and> IsNotFound (NewNotFound ClusterDeploymentKind ''cluster1'')"
    by (simp add: store_Get_def namespaceStore_def noFaults_def namespace1_def NewNotFound_def)
  have d: "store_Get NamespaceKind [] ''cluster1'' racedStore = Inr namespace1
           \<and> DeletionTimestamp namespace1 = None
           \<and> store_Get ClusterDeploymentKind ''cluster1'' ''cluster1'' racedStore
               = Inl (NewNotFound ClusterDeploymentKind ''cluster1'')
           \<and> IsNotFound (NewNotFound ClusterDeploymentKind ''cluster1'')"
    by (simp add: store_Get_def racedStore_def namespaceStore_def noFaults_def namespace1_def
          NewNotFound_def)
  have fc: "faults namespaceStore (Delete NamespaceKind [] ''cluster1'') = None"
    by (simp add: namespaceStore_def noFaults_def)
  have fd: "faults racedStore (Delete NamespaceKind [] ''cluster1'')
              = Some (StatusError ''NotFound'' ''cluster1 not found'')"
    by (simp add: racedStore_def)
  have cs: "calls namespaceStore = []" "calls racedStore = []"
    by (simp_all add: racedStore_def namespaceStore_def)
  from deleteNamespace_noop_and_delete [of "''cluster1''" emptyStore
         "NewNotFound NamespaceKind ''cluster1''"] a
  have 1: "deleteNamespace ''cluster1'' emptyStore =
     (None, record_call (Get NamespaceKind [] ''cluster1'') emptyStore)" by blast
  from deleteNamespace_noop_and_delete [of "''cluster1''" terminatingStore _
         "namespace1\<lparr>DeletionTimestamp := Some 1\<rparr>"] b
  have 2: "deleteNamespace ''cluster1'' terminatingStore =
     (None, record_call (Get NamespaceKind [] ''cluster1'') terminatingStore)" by blast
  from deleteNamespace_noop_and_delete [of "''cluster1''" namespaceStore _ namespace1
         "NewNotFound ClusterDeploymentKind ''cluster1''"] c
  have 3: "calls (snd (deleteNamespace ''cluster1'' namespaceStore)) =
       [Get NamespaceKind [] ''cluster1'', Get ClusterDeploymentKind ''cluster1'' ''cluster1'',
        Delete NamespaceKind [] ''cluster1'']
   \<and> fst (deleteNamespace ''cluster1'' namespaceStore) = None
   \<and> objects (snd (deleteNamespace ''cluster1'' namespaceStore)) (NamespaceKind, [], ''cluster1'') = None"
    by (simp add: fc cs)
  from deleteNamespace_noop_and_delete [of "''cluster1''" racedStore _ namespace1
         "NewNotFound ClusterDeploymentKind ''cluster1''"] d
  have 4: "calls (snd (deleteNamespace ''cluster1'' racedStore)) =
       [Get NamespaceKind [] ''cluster1'', Get ClusterDeploymentKind ''cluster1'' ''cluster1'',
        Delete NamespaceKind [] ''cluster1'']
   \<and> fst (deleteNamespace ''cluster1'' racedStore) = None"
    by (simp add: fd cs)
  from 1 2 3 4 show ?thesis by blast
qed

text \<open>
  C2, as the code has it. deleteNamespace issues a delete of the namespace only when
  the lookup of the cluster deployment named after the cluster answers not-found: when
  the lookup returns the record, or fails in another way, no delete is issued. When the
  lookup returns the record and the namespace is there and carries no deletion
  timestamp, exactly one update of the record is issued, with the controller's
  finalizer removed; when the update is accepted the error naming the namespace is
  returned, and when it is refused the error of the update is returned. When the
  namespace is not found or carries a deletion timestamp, deleteNamespace returns nil
  after the lookup of the namespace alone: the record is not looked at and the store is
  left as it was.
\<close>

theorem deleteNamespace_blocked:
  "(Delete NamespaceKind [] n \<in> set (drop (length (calls s)) (calls (snd (deleteNamespace n s))))
      \<longrightarrow> (\<exists>e. store_Get ClusterDeploymentKind n n s = Inl e \<and> IsNotFound e))
   \<and> (store_Get ClusterDeploymentKind n n s = Inr cd
      \<longrightarrow> Delete NamespaceKind [] n \<notin> set (drop (length (calls s)) (calls (snd (deleteNamespace n s)))))
   \<and> (store_Get NamespaceKind [] n s = Inr ns \<and> DeletionTimestamp ns = None
       \<and> store_Get ClusterDeploymentKind n n s = Inr cd
      \<longrightarrow> calls (snd (deleteNamespace n s)) =
            calls s @ [Get NamespaceKind [] n, Get ClusterDeploymentKind n n,
                       Update ClusterDeploymentKind n n]
          \<and> (case faults s (Update ClusterDeploymentKind n n) of
                None \<Rightarrow>
                  fst (deleteNamespace n s) = Some (blockedError n)
                  \<and> objects (snd (deleteNamespace n s)) =
                      (objects s)((ClusterDeploymentKind, n, n) \<mapsto>
                         cd\<lparr>Finalizers := RemoveFinalizer (Finalizers cd) managedClusterFinalizer\<rparr>)
                  \<and> managedClusterFinalizer \<notin>
                      set (RemoveFinalizer (Finalizers cd) managedClusterFinalizer)
                  \<and> Error quote (blockedError n) =
                      ''can not delete namespace '' @ n @ '' as ClusterDeployment '' @ n @ '' still exist''
              | Some ue \<Rightarrow>
                  fst (deleteNamespace n s) = Some ue
                  \<and> objects (snd (deleteNamespace n s)) = objects s))
   \<and> (store_Get NamespaceKind [] n s = Inl ne \<and> IsNotFound ne
      \<longrightarrow> deleteNamespace n s = (None, record_call (Get NamespaceKind [] n) s))
   \<and> (store_Get NamespaceKind [] n s = Inr ns \<and> notNil (DeletionTimestamp ns)
      \<longrightarrow> deleteNamespace n s = (None, record_call (Get NamespaceKind [] n) s))"
proof (intro conjI impI)
  assume d: "Delete NamespaceKind [] n \<in> set (drop (length (calls s)) (calls (snd (deleteNamespace n s))))"
  show "\<exists>e. store_Get ClusterDeploymentKind n n s = Inl e \<and> IsNotFound e"
  proof (cases "store_Get ClusterDeploymentKind n n s")
    case (Inl e)
    show ?thesis
    proof (cases "IsNotFound e")
      case True
      with Inl show ?thesis by simp
    next
      case False
      with Inl d show ?thesis
        by (simp add: deleteNamespace_def client_Get_def split: sum.splits if_splits)
    qed
  next
    case (Inr cd')
    then obtain old where "objects s (ClusterDeploymentKind, n, n) = Some old"
      and "Name cd' = n" "Namespace cd' = n"
      using store_Get_Inr_objects [of ClusterDeploymentKind n n s cd'] by blast
    with Inr d show ?thesis
      by (simp add: deleteNamespace_def client_Get_def client_Update_def Let_def
            split: option.splits sum.splits if_splits)
  qed
next
  assume h: "store_Get ClusterDeploymentKind n n s = Inr cd"
  then obtain old where o: "objects s (ClusterDeploymentKind, n, n) = Some old"
    and nm: "Name cd = n" "Namespace cd = n"
    using store_Get_Inr_objects [of ClusterDeploymentKind n n s cd] by blast
  from h o nm
  show "Delete NamespaceKind [] n \<notin> set (drop (length (calls s)) (calls (snd (deleteNamespace n s))))"
    by (simp add: deleteNamespace_def client_Get_def client_Update_def Let_def
          split: option.splits sum.splits)
next
  assume h: "store_Get NamespaceKind [] n s = Inr ns \<and> DeletionTimestamp ns = None
       \<and> store_Get ClusterDeploymentKind n n s = Inr cd"
  then obtain old where o: "objects s (ClusterDeploymentKind, n, n) = Some old"
    and nm: "Name cd = n" "Namespace cd = n"
    using store_Get_Inr_objects [of ClusterDeploymentKind n n s cd] by blast
  from h o nm
  show "calls (snd (deleteNamespace n s)) =
            calls s @ [Get NamespaceKind [] n, Get ClusterDeploymentKind n n,
                       Update ClusterDeploymentKind n n]"
    by (simp add: deleteNamespace_def client_Get_def client_Update_def Let_def
          split: option.splits)
  from h o nm
  show "case faults s (Update ClusterDeploymentKind n n) of
                None \<Rightarrow>
                  fst (deleteNamespace n s) = Some (blockedError n)
                  \<and> objects (snd (deleteNamespace n s)) =
                      (objects s)((ClusterDeploymentKind, n, n) \<mapsto>
                         cd\<lparr>Finalizers := RemoveFinalizer (Finalizers cd) managedClusterFinalizer\<rparr>)
                  \<and> managedClusterFinalizer \<notin>
                      set (RemoveFinalizer (Finalizers cd) managedClusterFinalizer)
                  \<and> Error quote (blockedError n) =
                      ''can not delete namespace '' @ n @ '' as ClusterDeployment '' @ n @ '' still exist''
              | Some ue \<Rightarrow>
                  fst (deleteNamespace n s) = Some ue
                  \<and> objects (snd (deleteNamespace n s)) = objects s"
    by (simp add: deleteNamespace_def client_Get_def client_Update_def Let_def
          RemoveFinalizer_def blockedError_def split: option.splits)
next
  assume "store_Get NamespaceKind [] n s = Inl ne \<and> IsNotFound ne"
  then show "deleteNamespace n s = (None, record_call (Get NamespaceKind [] n) s)"
    by (simp add: deleteNamespace_def client_Get_def)
next
  assume "store_Get NamespaceKind [] n s = Inr ns \<and> notNil (DeletionTimestamp ns)"
  then show "deleteNamespace n s = (None, record_call (Get NamespaceKind [] n) s)"
    by (simp add: deleteNamespace_def client_Get_def)
qed

theorem deleteNamespace_blocked_witness:
  "Delete NamespaceKind [] ''cluster1'' \<notin>
      set (drop (length (calls hiveStore)) (calls (snd (deleteNamespace ''cluster1'' hiveStore))))
   \<and> calls (snd (deleteNamespace ''cluster1'' hiveStore)) =
       [Get NamespaceKind [] ''cluster1'', Get ClusterDeploymentKind ''cluster1'' ''cluster1'',
        Update ClusterDeploymentKind ''cluster1'' ''cluster1'']
   \<and> fst (deleteNamespace ''cluster1'' hiveStore) = Some (blockedError ''cluster1'')
   \<and> objects (snd (deleteNamespace ''cluster1'' hiveStore))
        (ClusterDeploymentKind, ''cluster1'', ''cluster1'') = Some (deployment1\<lparr>Finalizers := []\<rparr>)
   \<and> Delete NamespaceKind [] ''cluster1'' \<in>
        set (drop (length (calls namespaceStore)) (calls (snd (deleteNamespace ''cluster1'' namespaceStore))))
   \<and> (\<exists>e. store_Get ClusterDeploymentKind ''cluster1'' ''cluster1'' namespaceStore = Inl e
           \<and> IsNotFound e)
   \<and> deleteNamespace ''cluster1'' emptyStore =
       (None, record_call (Get NamespaceKind [] ''cluster1'') emptyStore)
   \<and> deleteNamespace ''cluster1'' terminatingStore =
       (None, record_call (Get NamespaceKind [] ''cluster1'') terminatingStore)"
proof -
  have h: "store_Get NamespaceKind [] ''cluster1'' hiveStore = Inr namespace1
           \<and> DeletionTimestamp namespace1 = None
           \<and> store_Get ClusterDeploymentKind ''cluster1'' ''cluster1'' hiveStore = Inr deployment1"
    by (simp add: store_Get_def hiveStore_def noFaults_def namespace1_def deployment1_def)
  have f: "faults hiveStore (Update ClusterDeploymentKind ''cluster1'' ''cluster1'') = None"
    by (simp add: hiveStore_def noFaults_def)
  have cs: "calls hiveStore = []" by (simp add: hiveStore_def)
  have r: "RemoveFinalizer (Finalizers deployment1) managedClusterFinalizer = []"
    by (simp add: RemoveFinalizer_def deployment1_def)
  have d: "Delete NamespaceKind [] ''cluster1'' \<in>
        set (drop (length (calls namespaceStore)) (calls (snd (deleteNamespace ''cluster1'' namespaceStore))))"
    by (simp add: deleteNamespace_def client_Get_def client_Delete_def store_Get_def Let_def
          namespaceStore_def noFaults_def namespace1_def NewNotFound_def)
  have a: "store_Get NamespaceKind [] ''cluster1'' emptyStore = Inl (NewNotFound NamespaceKind ''cluster1'')
           \<and> IsNotFound (NewNotFound NamespaceKind ''cluster1'')"
    by (simp add: store_Get_def emptyStore_def noFaults_def NewNotFound_def)
  have b: "store_Get NamespaceKind [] ''cluster1'' terminatingStore
             = Inr (namespace1\<lparr>DeletionTimestamp := Some 1\<rparr>)
           \<and> notNil (DeletionTimestamp (namespace1\<lparr>DeletionTimestamp := Some 1\<rparr>))"
    by (simp add: store_Get_def terminatingStore_def noFaults_def namespace1_def)
  from deleteNamespace_blocked [of "''cluster1''" hiveStore deployment1 namespace1] h
  have 1: "Delete NamespaceKind [] ''cluster1'' \<notin>
      set (drop (length (calls hiveStore)) (calls (snd (deleteNamespace ''cluster1'' hiveStore))))
   \<and> calls (snd (deleteNamespace ''cluster1'' hiveStore)) =
       [Get NamespaceKind [] ''cluster1'', Get ClusterDeploymentKind ''cluster1'' ''cluster1'',
        Update ClusterDeploymentKind ''cluster1'' ''cluster1'']
   \<and> fst (deleteNamespace ''cluster1'' hiveStore) = Some (blockedError ''cluster1'')
   \<and> objects (snd (deleteNamespace ''cluster1'' hiveStore))
        (ClusterDeploymentKind, ''cluster1'', ''cluster1'') = Some (deployment1\<lparr>Finalizers := []\<rparr>)"
    by (simp add: f cs r)
  from deleteNamespace_blocked [of "''cluster1''" namespaceStore] d
  have 2: "\<exists>e. store_Get ClusterDeploymentKind ''cluster1'' ''cluster1'' namespaceStore = Inl e
           \<and> IsNotFound e" by blast
  from deleteNamespace_blocked [where n = "''cluster1''" and s = emptyStore
         and ne = "NewNotFound NamespaceKind ''cluster1''"] a
  have 3: "deleteNamespace ''cluster1'' emptyStore =
       (None, record_call (Get NamespaceKind [] ''cluster1'') emptyStore)" by blast
  from deleteNamespace_blocked [where n = "''cluster1''" and s = terminatingStore
         and ns = "namespace1\<lparr>DeletionTimestamp := Some 1\<rparr>"] b
  have 4: "deleteNamespace ''cluster1'' terminatingStore =
       (None, record_call (Get NamespaceKind [] ''cluster1'') terminatingStore)" by blast
  from 1 d 2 3 4 show ?thesis by blast
qed

theorem deleteNamespace_terminating_counterexample:
  "store_Get ClusterDeploymentKind ''cluster1'' ''cluster1'' terminatingStore = Inr deployment1
   \<and> managedClusterFinalizer \<in> set (Finalizers deployment1)
   \<and> deleteNamespace ''cluster1'' terminatingStore =
       (None, record_call (Get NamespaceKind [] ''cluster1'') terminatingStore)
   \<and> store_Get ClusterDeploymentKind ''cluster1'' ''cluster1'' refusedStore = Inr deployment1
   \<and> fst (deleteNamespace ''cluster1'' refusedStore) =
       Some (StatusError ''Conflict'' ''the object has been modified'')
   \<and> objects (snd (deleteNamespace ''cluster1'' refusedStore))
         (ClusterDeploymentKind, ''cluster1'', ''cluster1'') = Some deployment1"
  by (simp add: deleteNamespace_def client_Get_def client_Update_def store_Get_def Let_def
        terminatingStore_def refusedStore_def hiveStore_def noFaults_def deployment1_def
        namespace1_def)

lemma deleteNamespace_record_call:
  "fst (deleteNamespace n (record_call c s)) = fst (deleteNamespace n s)"
  by (simp add: deleteNamespace_def client_Get_def client_Update_def client_Delete_def Let_def
        split: sum.splits option.splits)

subsection \<open>Reconcile\<close>

text \<open>
  C8. When the managed cluster is not found at the initial fetch and deleteNamespace
  then fails, Reconcile returns no error and asks for a requeue after one minute
  (sixty thousand million nanoseconds).
\<close>

theorem Reconcile_cleanup_requeue:
  "store_Get ManagedClusterKind [] (Request_Name request) s = Inl e \<and> IsNotFound e
   \<and> fst (deleteNamespace (Request_Name request) s) = Some e2
   \<longrightarrow> fst (Reconcile r request s) = (\<lparr>Requeue = True, RequeueAfter = 1 * Minute\<rparr>, None)
       \<and> 1 * Minute = 60 * 1000000000"
proof (intro impI conjI)
  assume h: "store_Get ManagedClusterKind [] (Request_Name request) s = Inl e \<and> IsNotFound e
   \<and> fst (deleteNamespace (Request_Name request) s) = Some e2"
  let ?s1 = "record_call (Get ManagedClusterKind [] (Request_Name request)) s"
  from h have "fst (deleteNamespace (Request_Name request) ?s1) = Some e2"
    by (simp add: deleteNamespace_record_call)
  then obtain s2 where "deleteNamespace (Request_Name request) ?s1 = (Some e2, s2)"
    by (cases "deleteNamespace (Request_Name request) ?s1") simp
  with h show "fst (Reconcile r request s) = (\<lparr>Requeue = True, RequeueAfter = 1 * Minute\<rparr>, None)"
    by (simp add: Reconcile_def client_Get_def)
next
  show "1 * Minute = 60 * 1000000000" by (simp add: Minute_def)
qed

theorem Reconcile_cleanup_requeue_witness:
  "fst (Reconcile quietEnv request1 hiveStore) =
     (\<lparr>Requeue = True, RequeueAfter = 60000000000\<rparr>, None)"
proof -
  have a: "store_Get ManagedClusterKind [] (Request_Name request1) hiveStore
             = Inl (NewNotFound ManagedClusterKind ''cluster1'')
           \<and> IsNotFound (NewNotFound ManagedClusterKind ''cluster1'')"
    by (simp add: store_Get_def hiveStore_def noFaults_def request1_def NewNotFound_def)
  have b: "fst (deleteNamespace (Request_Name request1) hiveStore) = Some (blockedError ''cluster1'')"
    by (simp add: deleteNamespace_def client_Get_def client_Update_def store_Get_def Let_def
          hiveStore_def noFaults_def request1_def namespace1_def deployment1_def)
  from Reconcile_cleanup_requeue [of request1 hiveStore "NewNotFound ManagedClusterKind ''cluster1''"
         "blockedError ''cluster1''" quietEnv] a b
  show ?thesis by (simp add: Minute_def)
qed

text \<open>
  C4, evaluated where the import fails. The cluster is off line and an auto-import
  secret is there, so the decision is to import. With a failing importCluster,
  Reconcile returns the error of the import at once: no status patch is sent and the
  stored conditions stay empty. With a succeeding importCluster the patch is sent and
  the condition says that the import succeeded.
\<close>

theorem Reconcile_import_failure_unrecorded:
  "fst (Reconcile failingImportEnv request1 offlineStore) =
     (emptyResult, Some (ErrorString ''import failed''))
   \<and> calls (snd (Reconcile failingImportEnv request1 offlineStore)) =
       [Get ManagedClusterKind [] ''cluster1'', Update ManagedClusterKind [] ''cluster1'',
        Get NamespaceKind [] ''cluster1'', Update NamespaceKind [] ''cluster1'',
        Get ServiceAccountKind ''cluster1'' ''cluster1-bootstrap-sa'',
        External ''CreateResource'', External ''CreateOrUpdateInPath'',
        External ''generateImportYAMLs'', External ''createOrUpdateImportSecret'',
        External ''deleteKlusterletSyncSets'',
        Get ClusterDeploymentKind ''cluster1'' ''cluster1'',
        Get SecretKind ''cluster1'' ''auto-import-secret'',
        External ''importCluster'']
   \<and> map_option Conditions
         (objects (snd (Reconcile failingImportEnv request1 offlineStore))
            (ManagedClusterKind, [], ''cluster1'')) = Some []
   \<and> fst (Reconcile quietEnv request1 offlineStore) = (emptyResult, None)
   \<and> calls (snd (Reconcile quietEnv request1 offlineStore)) =
       [Get ManagedClusterKind [] ''cluster1'', Update ManagedClusterKind [] ''cluster1'',
        Get NamespaceKind [] ''cluster1'', Update NamespaceKind [] ''cluster1'',
        Get ServiceAccountKind ''cluster1'' ''cluster1-bootstrap-sa'',
        External ''CreateResource'', External ''CreateOrUpdateInPath'',
        External ''generateImportYAMLs'', External ''createOrUpdateImportSecret'',
        External ''deleteKlusterletSyncSets'',
        Get ClusterDeploymentKind ''cluster1'' ''cluster1'',
        Get SecretKind ''cluster1'' ''auto-import-secret'',
        External ''importCluster'',
        StatusPatch ManagedClusterKind [] ''cluster1'']
   \<and> map_option Conditions
         (objects (snd (Reconcile quietEnv request1 offlineStore))
            (ManagedClusterKind, [], ''cluster1'')) =
       Some [\<lparr>Type = ''ManagedClusterImportSucceeded'', Status = ConditionTrue,
              Reason = ''ManagedClusterImported'', Message = ''Import succeeded''\<rparr>]"
  by (simp add: eval_defs example_defs)

text \<open>
  C5, evaluated where the lookup of the bootstrap service account fails. The API
  answers that lookup with an internal error, which is not a not-found error;
  Reconcile neither creates the account nor stops: the later steps run and the result
  is success with no error.
\<close>

theorem Reconcile_serviceaccount_error_swallowed:
  "store_Get ServiceAccountKind ''cluster1'' ''cluster1-bootstrap-sa'' brokenAccountStore =
     Inl (StatusError ''InternalError'' ''etcd unavailable'')
   \<and> \<not> IsNotFound (StatusError ''InternalError'' ''etcd unavailable'')
   \<and> fst (Reconcile quietEnv request1 brokenAccountStore) = (emptyResult, None)
   \<and> calls (snd (Reconcile quietEnv request1 brokenAccountStore)) =
       [Get ManagedClusterKind [] ''cluster1'', Update ManagedClusterKind [] ''cluster1'',
        Get NamespaceKind [] ''cluster1'', Update NamespaceKind [] ''cluster1'',
        Get ServiceAccountKind ''cluster1'' ''cluster1-bootstrap-sa'',
        External ''CreateOrUpdateInPath'', External ''generateImportYAMLs'',
        External ''createOrUpdateImportSecret'', External ''deleteKlusterletSyncSets'',
        External ''createOrUpdateManifestWorks'']"
  by (simp add: eval_defs example_defs)

subsection \<open>Recording the outcome of the import\<close>

lemma SetStatusCondition_find:
  "\<exists>c. find (\<lambda>c. Type c = Type new) (SetStatusCondition cs new) = Some c
       \<and> Status c = Status new \<and> Reason c = Reason new \<and> Message c = Message new"
  by (induction cs) auto

lemma importCondition_Type [simp]:
  "Type (importCondition quote errIn reason) = ManagedClusterImportSucceeded"
  by (simp add: importCondition_def split: option.splits)

lemma importCondition_find:
  "\<exists>c. find (\<lambda>c. Type c = ManagedClusterImportSucceeded)
            (SetStatusCondition cs (importCondition quote errIn reason)) = Some c
        \<and> Status c = (case errIn of None \<Rightarrow> ConditionTrue | Some e \<Rightarrow> ConditionFalse)
        \<and> Message c = (case errIn of
                          None \<Rightarrow> ''Import succeeded''
                        | Some e \<Rightarrow> if reason = [] then Error quote e
                                    else Error quote e @ '': '' @ reason)"
  using SetStatusCondition_find [of "importCondition quote errIn reason" cs]
  by (auto simp: importCondition_def split: option.splits)

text \<open>
  C6, as the code has it. setConditionImport computes the condition
  ManagedClusterImportSucceeded: True with the message "Import succeeded" when the
  error is nil, False otherwise, with the message of the error, followed by a colon
  and the context when the context is not empty. It sends one status patch, a merge
  patch against the object as it was before the change: when the patch is accepted,
  what is written to the stored object is the list of conditions when that list
  changed in memory, and nothing when it did not, and the object in memory becomes the
  object as stored. So when the conditions in memory were those of the stored object,
  the stored object carries the condition afterwards. When the patch is accepted the
  input error is returned unchanged; when the patch is refused the error of the patch
  is returned and the store is left as it was. Reconcile drops that error: after an
  import that succeeded without a requeue it returns the result of the import with no
  error.
\<close>

theorem setConditionImport_contract:
  "calls (snd (setConditionImport r mc errIn reason s)) =
       calls s @ [StatusPatch ManagedClusterKind (Namespace mc) (Name mc)]
   \<and> (faults s (StatusPatch ManagedClusterKind (Namespace mc) (Name mc)) = None
       \<and> objects s (ManagedClusterKind, Namespace mc, Name mc) = Some cur
      \<longrightarrow> fst (fst (setConditionImport r mc errIn reason s)) = errIn
          \<and> objects (snd (setConditionImport r mc errIn reason s)) =
              (if SetStatusCondition (Conditions mc) (importCondition (Quote r) errIn reason)
                    = Conditions mc
               then objects s
               else (objects s)((ManagedClusterKind, Namespace mc, Name mc) \<mapsto>
                      cur\<lparr>Conditions :=
                            SetStatusCondition (Conditions mc)
                              (importCondition (Quote r) errIn reason)\<rparr>))
          \<and> (\<exists>stored.
                objects (snd (setConditionImport r mc errIn reason s))
                  (ManagedClusterKind, Namespace mc, Name mc) = Some stored
                \<and> snd (fst (setConditionImport r mc errIn reason s)) =
                    stored\<lparr>Name := Name mc, Namespace := Namespace mc\<rparr>))
   \<and> (faults s (StatusPatch ManagedClusterKind (Namespace mc) (Name mc)) = None
       \<and> objects s (ManagedClusterKind, Namespace mc, Name mc) = Some cur
       \<and> Conditions cur = Conditions mc
      \<longrightarrow> (\<exists>stored c.
             objects (snd (setConditionImport r mc errIn reason s))
               (ManagedClusterKind, Namespace mc, Name mc) = Some stored
             \<and> find (\<lambda>c. Type c = ManagedClusterImportSucceeded) (Conditions stored) = Some c
             \<and> Status c = (case errIn of None \<Rightarrow> ConditionTrue | Some e \<Rightarrow> ConditionFalse)
             \<and> Message c = (case errIn of
                               None \<Rightarrow> ''Import succeeded''
                             | Some e \<Rightarrow> if reason = [] then Error (Quote r) e
                                         else Error (Quote r) e @ '': '' @ reason)))
   \<and> (faults s (StatusPatch ManagedClusterKind (Namespace mc) (Name mc)) = Some perr
      \<longrightarrow> fst (fst (setConditionImport r mc errIn reason s)) = Some perr
          \<and> objects (snd (setConditionImport r mc errIn reason s)) = objects s)
   \<and> (toBeImported cluster st = ((autoImportSecret, clusterDeployment, True, None), sa)
       \<and> importCluster r cluster clusterDeployment autoImportSecret sa = ((result, None), inst, sb)
       \<and> Requeue result = False
      \<longrightarrow> fst (Reconcile_import r cluster st) = (result, None))"
proof (intro conjI impI)
  show "calls (snd (setConditionImport r mc errIn reason s)) =
       calls s @ [StatusPatch ManagedClusterKind (Namespace mc) (Name mc)]"
    by (simp add: setConditionImport_def client_Status_Patch_def Let_def
          split: prod.splits option.splits)
next
  assume h: "faults s (StatusPatch ManagedClusterKind (Namespace mc) (Name mc)) = None
       \<and> objects s (ManagedClusterKind, Namespace mc, Name mc) = Some cur"
  then show "fst (fst (setConditionImport r mc errIn reason s)) = errIn"
    by (simp add: setConditionImport_def client_Status_Patch_def Let_def)
  from h show "objects (snd (setConditionImport r mc errIn reason s)) =
              (if SetStatusCondition (Conditions mc) (importCondition (Quote r) errIn reason)
                    = Conditions mc
               then objects s
               else (objects s)((ManagedClusterKind, Namespace mc, Name mc) \<mapsto>
                      cur\<lparr>Conditions :=
                            SetStatusCondition (Conditions mc)
                              (importCondition (Quote r) errIn reason)\<rparr>))"
    by (simp add: setConditionImport_def client_Status_Patch_def Let_def)
  from h show "\<exists>stored.
                objects (snd (setConditionImport r mc errIn reason s))
                  (ManagedClusterKind, Namespace mc, Name mc) = Some stored
                \<and> snd (fst (setConditionImport r mc errIn reason s)) =
                    stored\<lparr>Name := Name mc, Namespace := Namespace mc\<rparr>"
    by (simp add: setConditionImport_def client_Status_Patch_def Let_def)
next
  assume h: "faults s (StatusPatch ManagedClusterKind (Namespace mc) (Name mc)) = None
       \<and> objects s (ManagedClusterKind, Namespace mc, Name mc) = Some cur
       \<and> Conditions cur = Conditions mc"
  let ?new = "SetStatusCondition (Conditions mc) (importCondition (Quote r) errIn reason)"
  obtain c where c: "find (\<lambda>c. Type c = ManagedClusterImportSucceeded) ?new = Some c"
    "Status c = (case errIn of None \<Rightarrow> ConditionTrue | Some e \<Rightarrow> ConditionFalse)"
    "Message c = (case errIn of
                    None \<Rightarrow> ''Import succeeded''
                  | Some e \<Rightarrow> if reason = [] then Error (Quote r) e
                              else Error (Quote r) e @ '': '' @ reason)"
    using importCondition_find [of "Conditions mc" "Quote r" errIn reason] by blast
  from h have "\<exists>stored. objects (snd (setConditionImport r mc errIn reason s))
               (ManagedClusterKind, Namespace mc, Name mc) = Some stored
             \<and> Conditions stored = ?new"
    by (simp add: setConditionImport_def client_Status_Patch_def Let_def)
  with c show "\<exists>stored c.
             objects (snd (setConditionImport r mc errIn reason s))
               (ManagedClusterKind, Namespace mc, Name mc) = Some stored
             \<and> find (\<lambda>c. Type c = ManagedClusterImportSucceeded) (Conditions stored) = Some c
             \<and> Status c = (case errIn of None \<Rightarrow> ConditionTrue | Some e \<Rightarrow> ConditionFalse)
             \<and> Message c = (case errIn of
                               None \<Rightarrow> ''Import succeeded''
                             | Some e \<Rightarrow> if reason = [] then Error (Quote r) e
                                         else Error (Quote r) e @ '': '' @ reason)"
    by auto
next
  assume "faults s (StatusPatch ManagedClusterKind (Namespace mc) (Name mc)) = Some perr"
  then show "fst (fst (setConditionImport r mc errIn reason s)) = Some perr"
    and "objects (snd (setConditionImport r mc errIn reason s)) = objects s"
    by (simp_all add: setConditionImport_def client_Status_Patch_def Let_def)
next
  assume "toBeImported cluster st = ((autoImportSecret, clusterDeployment, True, None), sa)
       \<and> importCluster r cluster clusterDeployment autoImportSecret sa = ((result, None), inst, sb)
       \<and> Requeue result = False"
  then show "fst (Reconcile_import r cluster st) = (result, None)"
    by (simp add: Reconcile_import_def split: prod.splits)
qed

theorem setConditionImport_counterexample:
  "fst (fst (setConditionImport quietEnv cluster1 None ''Unable to import cluster1'' conflictStore)) =
     Some (StatusError ''Conflict'' ''the object has been modified'')
   \<and> map_option Conditions
         (objects (snd (setConditionImport quietEnv cluster1 (Some (ErrorString ''boom'')) [] offlineStore))
            (ManagedClusterKind, [], ''cluster1'')) =
       Some [\<lparr>Type = ''ManagedClusterImportSucceeded'', Status = ''False'',
              Reason = ''ManagedClusterNotImported'', Message = ''boom''\<rparr>]
   \<and> setConditionImport quietEnv importedCluster1 None ''Unable to import cluster1'' offlineStore =
       ((None, cluster1),
        record_call (StatusPatch ManagedClusterKind [] ''cluster1'') offlineStore)
   \<and> map_option Conditions (objects offlineStore (ManagedClusterKind, [], ''cluster1'')) = Some []"
  by (simp add: setConditionImport_def client_Status_Patch_def importCondition_def Let_def
        conflictStore_def offlineStore_def cluster1_def importedCluster1_def noFaults_def
        ManagedClusterImportSucceeded_def ConditionTrue_def ConditionFalse_def)

theorem setConditionImport_contract_witness:
  "fst (fst (setConditionImport quietEnv cluster1 (Some (ErrorString ''boom'')) ''ctx'' offlineStore)) =
     Some (ErrorString ''boom'')
   \<and> map_option Conditions
         (objects (snd (setConditionImport quietEnv cluster1 (Some (ErrorString ''boom'')) ''ctx'' offlineStore))
            (ManagedClusterKind, [], ''cluster1'')) =
       Some [\<lparr>Type = ''ManagedClusterImportSucceeded'', Status = ''False'',
              Reason = ''ManagedClusterNotImported'', Message = ''boom: ctx''\<rparr>]
   \<and> (\<exists>stored c.
         objects (snd (setConditionImport quietEnv cluster1 (Some (ErrorString ''boom'')) ''ctx'' offlineStore))
           (ManagedClusterKind, [], ''cluster1'') = Some stored
         \<and> find (\<lambda>c. Type c = ManagedClusterImportSucceeded) (Conditions stored) = Some c
         \<and> Status c = ConditionFalse \<and> Message c = ''boom: ctx'')
   \<and> fst (fst (setConditionImport quietEnv cluster1 None ''ctx'' conflictStore)) =
       Some (StatusError ''Conflict'' ''the object has been modified'')
   \<and> objects (snd (setConditionImport quietEnv cluster1 None ''ctx'' conflictStore)) = objects conflictStore
   \<and> fst (Reconcile_import quietEnv cluster1 conflictStore) = (emptyResult, None)"
proof -
  let ?e = "Some (ErrorString ''boom'')"
  let ?s1 = "record_call (Get SecretKind ''cluster1'' autoImportSecretName)
               (record_call (Get ClusterDeploymentKind ''cluster1'' ''cluster1'') conflictStore)"
  have nm: "Namespace cluster1 = []" "Name cluster1 = ''cluster1''"
    by (simp_all add: cluster1_def)
  have a: "faults offlineStore (StatusPatch ManagedClusterKind (Namespace cluster1) (Name cluster1)) = None
           \<and> objects offlineStore (ManagedClusterKind, Namespace cluster1, Name cluster1) = Some cluster1
           \<and> Conditions cluster1 = Conditions cluster1"
    by (simp add: offlineStore_def noFaults_def cluster1_def)
  have b: "faults conflictStore (StatusPatch ManagedClusterKind (Namespace cluster1) (Name cluster1))
             = Some (StatusError ''Conflict'' ''the object has been modified'')"
    by (simp add: conflictStore_def cluster1_def)
  have c: "toBeImported cluster1 conflictStore = ((Some secret1, None, True, None), ?s1)
           \<and> importCluster quietEnv cluster1 None (Some secret1) ?s1 =
               ((emptyResult, None), cluster1, record_call (External ''importCluster'') ?s1)
           \<and> Requeue emptyResult = False"
    by (simp add: toBeImported_def client_Get_def store_Get_def conflictStore_def offlineStore_def
          noFaults_def cluster1_def secret1_def quietEnv_def emptyResult_def NewNotFound_def
          selfManagedLabel_def autoImportSecretName_def)
  have m: "importCondition (Quote quietEnv) ?e ''ctx'' =
       \<lparr>Type = ''ManagedClusterImportSucceeded'', Status = ''False'',
        Reason = ''ManagedClusterNotImported'', Message = ''boom: ctx''\<rparr>"
    by (simp add: importCondition_def ManagedClusterImportSucceeded_def ConditionFalse_def)
  have cc: "Conditions cluster1 = []" by (simp add: cluster1_def)
  note T = setConditionImport_contract [where r = quietEnv and mc = cluster1 and errIn = ?e
             and reason = "''ctx''" and s = offlineStore and cur = cluster1]
  from T a
  have 1: "fst (fst (setConditionImport quietEnv cluster1 ?e ''ctx'' offlineStore)) = ?e
     \<and> map_option Conditions
         (objects (snd (setConditionImport quietEnv cluster1 ?e ''ctx'' offlineStore))
            (ManagedClusterKind, [], ''cluster1'')) =
       Some [\<lparr>Type = ''ManagedClusterImportSucceeded'', Status = ''False'',
              Reason = ''ManagedClusterNotImported'', Message = ''boom: ctx''\<rparr>]"
    by (simp add: m cc nm)
  from T a
  have "\<exists>stored c.
         objects (snd (setConditionImport quietEnv cluster1 ?e ''ctx'' offlineStore))
           (ManagedClusterKind, Namespace cluster1, Name cluster1) = Some stored
         \<and> find (\<lambda>c. Type c = ManagedClusterImportSucceeded) (Conditions stored) = Some c
         \<and> Status c = (case ?e of None \<Rightarrow> ConditionTrue | Some e \<Rightarrow> ConditionFalse)
         \<and> Message c = (case ?e of
                           None \<Rightarrow> ''Import succeeded''
                         | Some e \<Rightarrow> if ''ctx'' = [] then Error (Quote quietEnv) e
                                     else Error (Quote quietEnv) e @ '': '' @ ''ctx'')"
    by blast
  then have 4: "\<exists>stored c.
         objects (snd (setConditionImport quietEnv cluster1 ?e ''ctx'' offlineStore))
           (ManagedClusterKind, [], ''cluster1'') = Some stored
         \<and> find (\<lambda>c. Type c = ManagedClusterImportSucceeded) (Conditions stored) = Some c
         \<and> Status c = ConditionFalse \<and> Message c = ''boom: ctx''"
    by (simp add: nm)
  from setConditionImport_contract [where r = quietEnv and mc = cluster1 and errIn = None
         and reason = "''ctx''" and s = conflictStore
         and perr = "StatusError ''Conflict'' ''the object has been modified''"] b
  have 2: "fst (fst (setConditionImport quietEnv cluster1 None ''ctx'' conflictStore)) =
       Some (StatusError ''Conflict'' ''the object has been modified'')
   \<and> objects (snd (setConditionImport quietEnv cluster1 None ''ctx'' conflictStore)) = objects conflictStore"
    by blast
  from setConditionImport_contract [where cluster = cluster1 and st = conflictStore
         and autoImportSecret = "Some secret1" and clusterDeployment = None and sa = ?s1
         and r = quietEnv and result = emptyResult and inst = cluster1
         and sb = "record_call (External ''importCluster'') ?s1"] c
  have 3: "fst (Reconcile_import quietEnv cluster1 conflictStore) = (emptyResult, None)"
    by blast
  from 1 4 2 3 show ?thesis by blast
qed

subsection \<open>Reconciling twice\<close>

lemma AddFinalizer_member: "f \<in> set (AddFinalizer fs f)"
  by (simp add: AddFinalizer_def)

text \<open>
  C10, as the code has it. After a first pass of the finalizer and label step that
  succeeded on the stored cluster, a second pass reads back the cluster the first one
  left, sends the update of the managed cluster again (the one mutating call, which
  writes the object as it is stored) and the lookup of the namespace, sends no update
  of the namespace, and leaves the store, and with it the labels, the finalizers and
  the conditions, as they were.
\<close>

theorem Reconcile_labels_idempotent:
  "store_Get ManagedClusterKind [] n s = Inr inst \<and> Reconcile_labels inst s = (None, inst1, s1)
   \<longrightarrow> store_Get ManagedClusterKind [] n s1 = Inr inst1
       \<and> Reconcile_labels inst1 s1 =
           (None, inst1,
            s1\<lparr>calls := calls s1 @ [Update ManagedClusterKind [] n, Get NamespaceKind [] n]\<rparr>)
       \<and> filter mutating [Update ManagedClusterKind [] n, Get NamespaceKind [] n] =
           [Update ManagedClusterKind [] n]
       \<and> managedClusterFinalizer \<in> set (Finalizers inst1)
       \<and> notNil (Labels inst1 ''name'')"
proof (intro impI)
  assume h: "store_Get ManagedClusterKind [] n s = Inr inst \<and> Reconcile_labels inst s = (None, inst1, s1)"
  then obtain old where o: "objects s (ManagedClusterKind, [], n) = Some old"
    and f: "faults s (Get ManagedClusterKind [] n) = None"
    and nm: "Name inst = n" "Namespace inst = []"
    using store_Get_Inr_objects [of ManagedClusterKind "[]" n s inst] by blast
  define prep where "prep = (\<lambda>i::Object.
     (let instance1 = i\<lparr>Finalizers := AddFinalizer (Finalizers i) managedClusterFinalizer\<rparr>
      in case Labels instance1 ''name'' of
           None \<Rightarrow> instance1\<lparr>Labels := (Labels instance1)(''name'' \<mapsto> Name instance1)\<rparr>
         | Some v \<Rightarrow> instance1))"
  define instA where "instA = prep inst"
  have nmA: "Name instA = n" "Namespace instA = []"
    using nm by (simp_all add: instA_def prep_def Let_def split: option.splits)
  have finA: "managedClusterFinalizer \<in> set (Finalizers instA)"
    by (simp add: instA_def prep_def Let_def AddFinalizer_member split: option.splits)
  have labA: "\<exists>v. Labels instA ''name'' = Some v"
    by (auto simp: instA_def prep_def Let_def split: option.splits)
  have unfold: "Reconcile_labels i st =
     (case client_Update ManagedClusterKind (prep i) st of
           (Some err, s1) \<Rightarrow> (Some err, prep i, s1)
         | (None, s1) \<Rightarrow>
             (case client_Get NamespaceKind [] (Name (prep i)) s1 of
                (Inl err, s2) \<Rightarrow> (Some err, prep i, s2)
              | (Inr ns, s2) \<Rightarrow>
                  (case Labels ns clusterLabel of
                     Some v \<Rightarrow> (None, prep i, s2)
                   | None \<Rightarrow>
                       (case client_Update NamespaceKind
                               (ns\<lparr>Labels := (Labels ns)(clusterLabel \<mapsto> Name (prep i))\<rparr>) s2 of
                          (Some err, s3) \<Rightarrow> (Some err, prep i, s3)
                        | (None, s3) \<Rightarrow> (None, prep i, s3)))))" for i st
    unfolding Reconcile_labels_def prep_def Let_def by (rule refl)
  note run = unfold [of inst s, folded instA_def]
  have i1: "inst1 = instA"
    using h unfolding run by (auto split: prod.splits option.splits sum.splits)
  have fu: "faults s (Update ManagedClusterKind [] n) = None"
    using h unfolding run
    by (auto simp: client_Update_def Let_def nmA split: prod.splits option.splits sum.splits)
  have facts: "faults s1 = faults s
     \<and> objects s1 (ManagedClusterKind, [], n) = Some instA
     \<and> faults s (Get NamespaceKind [] n) = None
     \<and> (\<exists>nsobj v. objects s1 (NamespaceKind, [], n) = Some nsobj \<and> Labels nsobj clusterLabel = Some v)"
    using h o unfolding run
    by (auto simp: client_Update_def client_Get_def store_Get_def Let_def nmA
             split: prod.splits option.splits sum.splits if_splits)
  then obtain nsobj v where ns: "objects s1 (NamespaceKind, [], n) = Some nsobj"
      "Labels nsobj clusterLabel = Some v" by blast
  have g: "store_Get ManagedClusterKind [] n s1 = Inr inst1"
    using facts f nmA by (simp add: store_Get_def i1)
  have again: "prep instA = instA"
    using finA labA by (auto simp: prep_def Let_def AddFinalizer_def)
  have upd: "client_Update ManagedClusterKind instA s1 =
               (None, record_call (Update ManagedClusterKind [] n) s1)"
    using facts fu nmA
    by (simp add: client_Update_def Let_def record_call_def map_upd_triv)
  have get: "client_Get NamespaceKind [] n (record_call (Update ManagedClusterKind [] n) s1) =
               (Inr (nsobj\<lparr>Name := n, Namespace := []\<rparr>),
                record_call (Get NamespaceKind [] n) (record_call (Update ManagedClusterKind [] n) s1))"
    using facts ns by (simp add: client_Get_def store_Get_def)
  have second: "Reconcile_labels inst1 s1 =
           (None, inst1,
            s1\<lparr>calls := calls s1 @ [Update ManagedClusterKind [] n, Get NamespaceKind [] n]\<rparr>)"
    unfolding i1 unfold [of instA s1] again
    by (simp add: upd nmA get ns)
  show "store_Get ManagedClusterKind [] n s1 = Inr inst1
       \<and> Reconcile_labels inst1 s1 =
           (None, inst1,
            s1\<lparr>calls := calls s1 @ [Update ManagedClusterKind [] n, Get NamespaceKind [] n]\<rparr>)
       \<and> filter mutating [Update ManagedClusterKind [] n, Get NamespaceKind [] n] =
           [Update ManagedClusterKind [] n]
       \<and> managedClusterFinalizer \<in> set (Finalizers inst1)
       \<and> notNil (Labels inst1 ''name'')"
    using g second finA labA i1 by auto
qed

theorem Reconcile_labels_idempotent_witness:
  "store_Get ManagedClusterKind [] ''cluster1'' offlineStore = Inr cluster1
   \<and> Reconcile_labels cluster1 offlineStore = (None, preparedCluster1, preparedStore)
   \<and> store_Get ManagedClusterKind [] ''cluster1'' preparedStore = Inr preparedCluster1
   \<and> Reconcile_labels preparedCluster1 preparedStore =
       (None, preparedCluster1,
        preparedStore\<lparr>calls := calls preparedStore @
           [Update ManagedClusterKind [] ''cluster1'', Get NamespaceKind [] ''cluster1'']\<rparr>)"
proof -
  have a: "store_Get ManagedClusterKind [] ''cluster1'' offlineStore = Inr cluster1"
    by (simp add: store_Get_def offlineStore_def noFaults_def cluster1_def)
  have b: "Reconcile_labels cluster1 offlineStore = (None, preparedCluster1, preparedStore)"
    by (simp add: Reconcile_labels_def client_Update_def client_Get_def store_Get_def Let_def
          record_call_def AddFinalizer_def offlineStore_def noFaults_def cluster1_def namespace1_def
          preparedCluster1_def preparedStore_def clusterLabel_def fun_upd_twist)
  from Reconcile_labels_idempotent [of "''cluster1''" offlineStore cluster1 preparedCluster1 preparedStore]
    a b
  show ?thesis by blast
qed

theorem Reconcile_twice_counterexample:
  "fst (Reconcile quietEnv request1 onlineStore) = (emptyResult, None)
   \<and> fst (Reconcile quietEnv request1 (snd (Reconcile quietEnv request1 onlineStore))) =
       (emptyResult, None)
   \<and> drop (length (calls (snd (Reconcile quietEnv request1 onlineStore))))
         (calls (snd (Reconcile quietEnv request1 (snd (Reconcile quietEnv request1 onlineStore))))) =
       [Get ManagedClusterKind [] ''cluster1'', Update ManagedClusterKind [] ''cluster1'',
        Get NamespaceKind [] ''cluster1'',
        Get ServiceAccountKind ''cluster1'' ''cluster1-bootstrap-sa'',
        External ''CreateOrUpdateInPath'', External ''generateImportYAMLs'',
        External ''createOrUpdateImportSecret'', External ''deleteKlusterletSyncSets'',
        External ''createOrUpdateManifestWorks'']
   \<and> mutating (Update ManagedClusterKind [] ''cluster1'')"
  by (simp add: eval_defs example_defs)

end
